theory Spec2Isabelle
  imports Main
begin

section \<open>JavaScript values and operators used by the episodes route\<close>

text \<open>
  The fields the route reads from a parsed feed are strings or missing. A field is a
  \<open>jsv\<close>: \<open>undefined\<close>, \<open>null\<close> or a string. Strings are byte lists holding the UTF-8
  encoding of the JavaScript string. Truthiness is JavaScript's: \<open>undefined\<close>, \<open>null\<close> and
  the empty string are falsy, every other string is truthy.
\<close>

datatype jsv = Undefined | Null | Str string

fun truthy :: "jsv \<Rightarrow> bool" where
  "truthy Undefined = False"
| "truthy Null = False"
| "truthy (Str s) = (s \<noteq> [])"

text \<open>\<open>a || b\<close>: the left operand when it is truthy, else the right one.\<close>

definition js_or :: "jsv \<Rightarrow> jsv \<Rightarrow> jsv" where
  "js_or a b = (if truthy a then a else b)"

text \<open>\<open>a ?? b\<close>: the right operand only when the left one is \<open>undefined\<close> or \<open>null\<close>.\<close>

definition nullish :: "jsv \<Rightarrow> jsv \<Rightarrow> jsv" where
  "nullish a b = (if a = Undefined \<or> a = Null then b else a)"

text \<open>\<open>obj?.field\<close>: \<open>undefined\<close> when the object is missing.\<close>

definition opt_chain :: "'a option \<Rightarrow> ('a \<Rightarrow> jsv) \<Rightarrow> jsv" where
  "opt_chain obj field = (case obj of None \<Rightarrow> Undefined | Some x \<Rightarrow> field x)"

subsection \<open>\<open>String.prototype.trim\<close>\<close>

text \<open>
  \<open>trim\<close> removes white space and line terminators from both ends: the six ASCII
  characters U+0009 to U+000D and U+0020, U+00A0 (bytes C2 A0), and the three-byte
  characters U+1680, U+2000 to U+200A, U+2028, U+2029, U+202F, U+205F, U+3000 and U+FEFF.
  \<open>strip_ws\<close> scans from the head of a list; its first argument says how the bytes it has
  read are ordered, so that the same scan serves the reversed string.
\<close>

definition is_ascii_ws :: "nat \<Rightarrow> bool" where
  "is_ascii_ws b = (b = 9 \<or> b = 10 \<or> b = 11 \<or> b = 12 \<or> b = 13 \<or> b = 32)"

definition ws3 :: "nat list list" where
  "ws3 = [[225, 154, 128],
          [226, 128, 128], [226, 128, 129], [226, 128, 130], [226, 128, 131],
          [226, 128, 132], [226, 128, 133], [226, 128, 134], [226, 128, 135],
          [226, 128, 136], [226, 128, 137], [226, 128, 138],
          [226, 128, 168], [226, 128, 169], [226, 128, 175],
          [226, 129, 159], [227, 128, 128], [239, 187, 191]]"

fun strip_ws :: "(nat list \<Rightarrow> nat list) \<Rightarrow> string \<Rightarrow> string" where
  "strip_ws ord [] = []"
| "strip_ws ord (c # cs) =
     (if is_ascii_ws (of_char c) then strip_ws ord cs
      else (case cs of
              [] \<Rightarrow> c # cs
            | c1 # r1 \<Rightarrow>
                if ord [of_char c, of_char c1] = [194, 160] then strip_ws ord r1
                else (case r1 of
                        [] \<Rightarrow> c # cs
                      | c2 # r2 \<Rightarrow>
                          if ord [of_char c, of_char c1, of_char c2] \<in> set ws3
                          then strip_ws ord r2
                          else c # cs)))"

definition trimStart :: "string \<Rightarrow> string" where
  "trimStart s = strip_ws id s"

definition trimEnd :: "string \<Rightarrow> string" where
  "trimEnd s = rev (strip_ws rev (rev s))"

definition trim :: "string \<Rightarrow> string" where
  "trim s = trimEnd (trimStart s)"

subsection \<open>\<open>decodeURIComponent\<close>\<close>

text \<open>
  \<open>decodeURIComponent\<close> replaces every escape \<open>%XX\<close> by the byte it names and throws a
  \<open>URIError\<close> (here: \<open>None\<close>) when a \<open>%\<close> is not followed by two hexadecimal digits, or
  when the escaped bytes from 0x80 upwards do not form the UTF-8 encoding of a code
  point, each of whose bytes has to be an escape.
\<close>

definition hexval :: "char \<Rightarrow> nat option" where
  "hexval c = (let n = (of_char c :: nat) in
     if 48 \<le> n \<and> n \<le> 57 then Some (n - 48)
     else if 65 \<le> n \<and> n \<le> 70 then Some (n - 55)
     else if 97 \<le> n \<and> n \<le> 102 then Some (n - 87)
     else None)"

datatype token = Lit char | Octet nat

fun unescape :: "string \<Rightarrow> token list option" where
  "unescape [] = Some []"
| "unescape (c # cs) =
     (if c = CHR ''%'' then
        (case cs of
           h1 # h2 # rest \<Rightarrow>
             (case (hexval h1, hexval h2) of
                (Some a, Some b) \<Rightarrow> map_option ((#) (Octet (16 * a + b))) (unescape rest)
              | _ \<Rightarrow> None)
         | _ \<Rightarrow> None)
      else map_option ((#) (Lit c)) (unescape cs))"

text \<open>The number of bytes a lead byte announces: its leading one bits (0 when it is
  a continuation byte or announces more than four).\<close>

definition utf8_len :: "nat \<Rightarrow> nat" where
  "utf8_len b = (if b < 128 then 1 else if b < 192 then 0 else if b < 224 then 2
                 else if b < 240 then 3 else if b < 248 then 4 else 0)"

definition cont :: "nat \<Rightarrow> bool" where
  "cont b = (128 \<le> b \<and> b \<le> 191)"

fun valid_utf8 :: "nat list \<Rightarrow> bool" where
  "valid_utf8 [b0, b1] = (194 \<le> b0 \<and> b0 \<le> 223 \<and> cont b1)"
| "valid_utf8 [b0, b1, b2] =
     ((b0 = 224 \<and> 160 \<le> b1 \<and> b1 \<le> 191
       \<or> (225 \<le> b0 \<and> b0 \<le> 236 \<or> 238 \<le> b0 \<and> b0 \<le> 239) \<and> cont b1
       \<or> b0 = 237 \<and> 128 \<le> b1 \<and> b1 \<le> 159) \<and> cont b2)"
| "valid_utf8 [b0, b1, b2, b3] =
     ((b0 = 240 \<and> 144 \<le> b1 \<and> b1 \<le> 191
       \<or> 241 \<le> b0 \<and> b0 \<le> 243 \<and> cont b1
       \<or> b0 = 244 \<and> 128 \<le> b1 \<and> b1 \<le> 143) \<and> cont b2 \<and> cont b3)"
| "valid_utf8 bs = False"

text \<open>\<open>assemble pend need ts\<close>: \<open>pend\<close> holds the bytes of the character being read and
  \<open>need\<close> the number of escapes that still have to follow.\<close>

fun assemble :: "nat list \<Rightarrow> nat \<Rightarrow> token list \<Rightarrow> string option" where
  "assemble pend need [] = (if need = 0 then Some [] else None)"
| "assemble pend need (Lit c # ts) =
     (if need = 0 then map_option ((#) c) (assemble [] 0 ts) else None)"
| "assemble pend need (Octet b # ts) =
     (if need = 0 then
        (if b < 128 then map_option ((#) (char_of b)) (assemble [] 0 ts)
         else if utf8_len b < 2 then None
         else assemble [b] (utf8_len b - 1) ts)
      else if need = 1 then
        (if valid_utf8 (pend @ [b])
         then map_option ((@) (map char_of (pend @ [b]))) (assemble [] 0 ts)
         else None)
      else assemble (pend @ [b]) (need - 1) ts)"

definition decodeURIComponent :: "string \<Rightarrow> string option" where
  "decodeURIComponent s = (case unescape s of None \<Rightarrow> None | Some ts \<Rightarrow> assemble [] 0 ts)"

subsection \<open>The test \<open>/^https?:\/\//i\<close>\<close>

text \<open>
  Without the \<open>u\<close> flag the \<open>i\<close> flag matches a pattern letter against its two ASCII
  cases only. \<open>match_ci p s\<close> matches the lower-case pattern \<open>p\<close> at the head of \<open>s\<close> and
  returns what follows.
\<close>

definition eq_ci :: "char \<Rightarrow> char \<Rightarrow> bool" where
  "eq_ci p c = (c = p \<or> (97 \<le> (of_char p :: nat) \<and> (of_char p :: nat) \<le> 122
                          \<and> (of_char c :: nat) + 32 = of_char p))"

fun match_ci :: "string \<Rightarrow> string \<Rightarrow> string option" where
  "match_ci [] s = Some s"
| "match_ci (p # ps) [] = None"
| "match_ci (p # ps) (c # cs) = (if eq_ci p c then match_ci ps cs else None)"

definition test_http :: "string \<Rightarrow> bool" where
  "test_http s =
     (case match_ci ''http'' s of
        None \<Rightarrow> False
      | Some r \<Rightarrow>
          (case match_ci ''s'' r of
             Some r' \<Rightarrow> match_ci ''://'' r' \<noteq> None \<or> match_ci ''://'' r \<noteq> None
           | None \<Rightarrow> match_ci ''://'' r \<noteq> None))"

section \<open>The parsed feed\<close>

text \<open>
  What \<open>rss.parseURL\<close> resolves with, restricted to the fields the routes read. An
  object that may be missing is an \<open>option\<close>. \<open>item_itunes_image\<close> is the item's
  property \<open>"itunes:image"\<close>; \<open>dollar\<close> is the attribute object \<open>$\<close> of a
  \<open>media:content\<close> element; \<open>item_mediaContent\<close> is \<open>None\<close> when the property is not
  an array.
\<close>

record enclosure =
  enclosure_url :: jsv
  enclosure_type :: jsv

record media_attrs =
  attr_url :: jsv
  attr_type :: jsv

record media_content =
  dollar :: "media_attrs option"

record href_obj =
  href :: jsv

record item_itunes =
  itunes_duration :: jsv
  itunes_image :: jsv

record rss_item =
  item_guid :: jsv
  item_title :: jsv
  item_contentSnippet :: jsv
  item_summary :: jsv
  item_description :: jsv
  item_content :: jsv
  item_pubDate :: jsv
  item_link :: jsv
  item_enclosure :: "enclosure option"
  item_mediaContent :: "media_content list option"
  item_itunesImage :: "href_obj option"
  item_itunes_image :: "href_obj option"
  item_itunes :: "item_itunes option"
  item_itunesDuration :: jsv

record feed_itunes =
  feed_itunes_author :: jsv
  feed_itunes_image :: jsv

record feed_image =
  image_url :: jsv

record rss_feed =
  feed_title :: jsv
  feed_itunes :: "feed_itunes option"
  feed_image :: "feed_image option"
  feed_items :: "rss_item list option"

section \<open>Normalizing an item (Server\_backup.cjs, the callback of \<open>feed.items.map\<close>)\<close>

record episode =
  ep_guid :: jsv
  ep_title :: jsv
  ep_description :: jsv
  ep_pubDate :: jsv
  ep_link :: jsv
  ep_mediaUrl :: jsv
  ep_mediaType :: jsv
  ep_image :: jsv
  ep_duration :: jsv

text \<open>\<open>mc\<close>: \<open>Array.isArray(item.mediaContent) ? item.mediaContent : []\<close>, and \<open>mc[0]?.$\<close>.\<close>

definition mc :: "rss_item \<Rightarrow> media_content list" where
  "mc item = (case item_mediaContent item of None \<Rightarrow> [] | Some ms \<Rightarrow> ms)"

definition mc0_attrs :: "rss_item \<Rightarrow> media_attrs option" where
  "mc0_attrs item = (case mc item of [] \<Rightarrow> None | m # ms \<Rightarrow> dollar m)"

definition mediaUrl :: "rss_item \<Rightarrow> jsv" where
  "mediaUrl item =
     js_or (js_or (opt_chain (item_enclosure item) enclosure_url)
                  (nullish (opt_chain (mc0_attrs item) attr_url) Null))
           Null"

definition mediaType :: "rss_item \<Rightarrow> jsv" where
  "mediaType item =
     js_or (js_or (opt_chain (item_enclosure item) enclosure_type)
                  (nullish (opt_chain (mc0_attrs item) attr_type) Null))
           Null"

definition image_of :: "rss_feed \<Rightarrow> rss_item \<Rightarrow> jsv" where
  "image_of feed item =
     js_or (js_or (js_or (opt_chain (item_itunesImage item) href)
                         (opt_chain (item_itunes_image item) href))
                  (opt_chain (feed_image feed) image_url))
           Null"

text \<open>\<open>(item.title || "Untitled Episode").trim()\<close>: the receiver of \<open>trim\<close> is always a
  string, since the right operand of \<open>||\<close> is a non-empty literal.\<close>

definition title_of :: "rss_item \<Rightarrow> jsv" where
  "title_of item =
     (case js_or (item_title item) (Str ''Untitled Episode'') of
        Str s \<Rightarrow> Str (trim s)
      | v \<Rightarrow> v)"

definition toEpisode :: "rss_feed \<Rightarrow> rss_item \<Rightarrow> episode" where
  "toEpisode feed item =
     \<lparr> ep_guid = js_or (item_guid item) Null,
       ep_title = title_of item,
       ep_description =
         js_or (js_or (js_or (item_contentSnippet item) (item_summary item))
                      (item_description item))
               (Str []),
       ep_pubDate = js_or (item_pubDate item) Null,
       ep_link = js_or (item_link item) Null,
       ep_mediaUrl = mediaUrl item,
       ep_mediaType = mediaType item,
       ep_image = image_of feed item,
       ep_duration =
         js_or (js_or (opt_chain (item_itunes item) itunes_duration) (item_itunesDuration item))
               Null \<rparr>"

text \<open>\<open>feed.items.map(...).filter(ep => !!ep.mediaUrl)\<close>\<close>

definition episodes_of :: "rss_feed \<Rightarrow> rss_item list \<Rightarrow> episode list" where
  "episodes_of feed its = filter (\<lambda>ep. truthy (ep_mediaUrl ep)) (map (toEpisode feed) its)"

section \<open>The variant route (the second server file): its \<open>feed.items.map\<close> callback\<close>

definition toEpisode_variant :: "rss_feed \<Rightarrow> rss_item \<Rightarrow> episode" where
  "toEpisode_variant feed item =
     \<lparr> ep_guid = js_or (item_guid item) Null,
       ep_title = js_or (item_title item) (Str ''Untitled Episode''),
       ep_description = js_or (js_or (item_contentSnippet item) (item_content item)) (Str []),
       ep_pubDate = js_or (item_pubDate item) Null,
       ep_link = js_or (item_link item) Null,
       ep_mediaUrl = js_or (opt_chain (item_enclosure item) enclosure_url) Null,
       ep_mediaType = js_or (opt_chain (item_enclosure item) enclosure_type) Null,
       ep_image =
         js_or (js_or (js_or (opt_chain (item_itunes item) itunes_image)
                             (opt_chain (feed_itunes feed) feed_itunes_image))
                      (opt_chain (feed_image feed) image_url))
               Null,
       ep_duration = js_or (opt_chain (item_itunes item) itunes_duration) Null \<rparr>"

section \<open>The handler of \<open>GET /episodes\<close> (Server\_backup.cjs)\<close>

text \<open>
  A response is its status, the headers set on it (in the order they are set) and its
  JSON body. The three shapes of a body are \<open>{error}\<close>, \<open>{error, details}\<close> and
  \<open>{title, author, episodes}\<close>.
\<close>

record payload =
  body_title :: jsv
  body_author :: jsv
  body_episodes :: "episode list"

datatype json_body =
    ErrorBody string
  | ErrorDetails string string
  | Payload payload

record response =
  status :: nat
  headers :: "(string \<times> string) list"
  body :: json_body

text \<open>
  The promise \<open>rss.parseURL(feedUrl)\<close> settles after some milliseconds, resolved with a
  feed (\<open>None\<close>: a falsy value) or rejected with an error message, or it never settles.
  \<open>race\<close> is \<open>Promise.race\<close> against the timer of 9000 ms that rejects with
  \<open>"Feed fetch timed out"\<close>; it returns the time at which the race settles as well. A
  promise that settles at exactly 9000 ms loses against the timer, which was started
  first; no result below depends on that choice.
\<close>

datatype settled = Resolved "rss_feed option" | Rejected string

datatype promise = Settles nat settled | Never

definition race :: "promise \<Rightarrow> nat \<times> settled" where
  "race p =
     (case p of
        Settles d r \<Rightarrow> if d < 9000 then (d, r) else (9000, Rejected ''Feed fetch timed out'')
      | Never \<Rightarrow> (9000, Rejected ''Feed fetch timed out''))"

definition json :: "nat \<Rightarrow> json_body \<Rightarrow> response" where
  "json st b = \<lparr> status = st, headers = [], body = b \<rparr>"

text \<open>The \<open>catch\<close> branch.\<close>

definition catch_response :: "string \<Rightarrow> response" where
  "catch_response message = json 404 (ErrorDetails ''Feed not found or unavailable'' message)"

text \<open>The body of the \<open>try\<close> block once the race has settled.\<close>

definition respond :: "settled \<Rightarrow> response" where
  "respond r =
     (case r of
        Rejected message \<Rightarrow> catch_response message
      | Resolved None \<Rightarrow> json 404 (ErrorBody ''No episodes found'')
      | Resolved (Some feed) \<Rightarrow>
          (case feed_items feed of
             None \<Rightarrow> json 404 (ErrorBody ''No episodes found'')
           | Some [] \<Rightarrow> json 404 (ErrorBody ''No episodes found'')
           | Some (i # is) \<Rightarrow>
               (let episodes = episodes_of feed (i # is) in
                if episodes = [] then json 404 (ErrorBody ''No playable media in feed'')
                else \<lparr> status = 200,
                       headers = [(''Cache-Control'', ''public, max-age=60'')],
                       body = Payload
                         \<lparr> body_title = feed_title feed,
                           body_author =
                             js_or (js_or (opt_chain (feed_itunes feed) feed_itunes_author)
                                          (feed_title feed))
                                   (Str ''Unknown''),
                           body_episodes = episodes \<rparr> \<rparr>)))"

text \<open>
  A request is its query parameter \<open>feedUrl\<close> (\<open>None\<close>: not given). The handler either
  sends a response or throws outside its \<open>try\<close> block (the \<open>URIError\<close> of
  \<open>decodeURIComponent\<close>), in which case nothing is sent. Its result also records the
  time it took and the URLs it passed to \<open>rss.parseURL\<close>, in order.
\<close>

record request =
  feedUrl :: "string option"

datatype outcome = Responded response | Threw string

record handled =
  outcome :: outcome
  elapsed :: nat
  fetched :: "string list"

definition sent :: "response \<Rightarrow> handled" where
  "sent r = \<lparr> outcome = Responded r, elapsed = 0, fetched = [] \<rparr>"

definition episodes_handler :: "(string \<Rightarrow> promise) \<Rightarrow> request \<Rightarrow> handled" where
  "episodes_handler parseURL req =
     (case feedUrl req of
        None \<Rightarrow> sent (json 400 (ErrorBody ''Missing feedUrl''))
      | Some rawFeedUrl \<Rightarrow>
          if rawFeedUrl = [] then sent (json 400 (ErrorBody ''Missing feedUrl''))
          else (case decodeURIComponent rawFeedUrl of
                  None \<Rightarrow> \<lparr> outcome = Threw ''URI malformed'', elapsed = 0, fetched = [] \<rparr>
                | Some decoded \<Rightarrow>
                    (let url = trim decoded in
                     if \<not> test_http url then sent (json 400 (ErrorBody ''Invalid feed URL''))
                     else (case race (parseURL url) of
                             (t, r) \<Rightarrow>
                               \<lparr> outcome = Responded (respond r),
                                 elapsed = t,
                                 fetched = [url] \<rparr>))))"

section \<open>The cache and \<open>cacheMW\<close>\<close>

text \<open>
  The cache is the \<open>NodeCache\<close> created with \<open>stdTTL: 120\<close>: \<open>set\<close> stores a value with
  the expiry time now + 120000 ms, and \<open>get\<close> returns a stored value until the clock has
  passed its expiry time, deleting it afterwards. Times are in milliseconds.
\<close>

type_synonym cache = "string \<Rightarrow> (json_body \<times> nat) option"

definition stdTTL :: nat where
  "stdTTL = 120"

definition cache_get :: "cache \<Rightarrow> nat \<Rightarrow> string \<Rightarrow> cache \<times> json_body option" where
  "cache_get c now key =
     (case c key of
        None \<Rightarrow> (c, None)
      | Some (v, t) \<Rightarrow> if t < now then (c(key := None), None) else (c, Some v))"

definition cache_set :: "cache \<Rightarrow> nat \<Rightarrow> string \<Rightarrow> json_body \<Rightarrow> cache" where
  "cache_set c now key v = c(key \<mapsto> (v, now + stdTTL * 1000))"

text \<open>The key builder of the route: the template \<open>`episodes:${req.query.feedUrl}`\<close>.\<close>

definition keyBuilder :: "request \<Rightarrow> string" where
  "keyBuilder req = ''episodes:'' @ (case feedUrl req of None \<Rightarrow> ''undefined'' | Some s \<Rightarrow> s)"

text \<open>
  \<open>cacheMW keyBuilder next c now req\<close>: the middleware in front of the handler \<open>next\<close>, run
  at time \<open>now\<close> on the cache \<open>c\<close>. On a hit it answers with the stored body (status 200,
  the default). On a miss the handler runs with \<open>res.json\<close> wrapped, so that the body of
  whatever response it sends is stored under the key at the time it is sent.
\<close>

definition cacheMW ::
  "(request \<Rightarrow> string) \<Rightarrow> (request \<Rightarrow> handled) \<Rightarrow> cache \<Rightarrow> nat \<Rightarrow> request \<Rightarrow> cache \<times> handled" where
  "cacheMW kb next c now req =
     (let key = kb req in
      case cache_get c now key of
        (c1, Some hit) \<Rightarrow>
          (c1, sent \<lparr> status = 200, headers = [(''X-Cache'', ''HIT'')], body = hit \<rparr>)
      | (c1, None) \<Rightarrow>
          (let h = next req in
           case outcome h of
             Responded r \<Rightarrow>
               (cache_set c1 (now + elapsed h) key (body r),
                h\<lparr> outcome := Responded (r\<lparr> headers := headers r @ [(''X-Cache'', ''MISS'')] \<rparr>) \<rparr>)
           | Threw e \<Rightarrow> (c1, h)))"

definition episodes_route :: "(string \<Rightarrow> promise) \<Rightarrow> cache \<Rightarrow> nat \<Rightarrow> request \<Rightarrow> cache \<times> handled" where
  "episodes_route parseURL c now req = cacheMW keyBuilder (episodes_handler parseURL) c now req"

text \<open>A promise takes longer than the timer of the race: it never settles, or settles
  after more than 9000 ms.\<close>

definition exceeds_timeout :: "promise \<Rightarrow> bool" where
  "exceeds_timeout p = (case p of Never \<Rightarrow> True | Settles d r \<Rightarrow> 9000 < d)"

section \<open>The specification's rule of precedence\<close>

text \<open>
  The specification words its precedence rules as ``first non-null wins''. This is that
  rule as worded, for comparison with what the routes compute: the first value of the
  list that is neither \<open>undefined\<close> nor \<open>null\<close>, else the default.
\<close>

fun spec_first_non_null :: "jsv list \<Rightarrow> jsv \<Rightarrow> jsv" where
  "spec_first_non_null [] d = d"
| "spec_first_non_null (v # vs) d =
     (if v = Undefined \<or> v = Null then spec_first_non_null vs d else v)"

section \<open>Example feeds and requests\<close>

text \<open>
  Concrete inputs on which the results below are evaluated: an item with no field at
  all, items with an enclosure, with a \<open>media:content\<close> entry, with both, with an
  enclosure that has no \<open>type\<close> attribute or an empty \<open>url\<close>, with two \<open>media:content\<close>
  entries, feeds made of them, requests, three behaviours of \<open>rss.parseURL\<close>, and the state
  of an empty cache after one request.
\<close>

definition blank_item :: rss_item where
  "blank_item =
     \<lparr> item_guid = Undefined, item_title = Undefined, item_contentSnippet = Undefined,
       item_summary = Undefined, item_description = Undefined, item_content = Undefined,
       item_pubDate = Undefined, item_link = Undefined, item_enclosure = None,
       item_mediaContent = None, item_itunesImage = None, item_itunes_image = None,
       item_itunes = None, item_itunesDuration = Undefined \<rparr>"

definition item_enclosed :: rss_item where
  "item_enclosed =
     blank_item\<lparr> item_title := Str '' One '',
       item_enclosure := Some \<lparr> enclosure_url = Str ''http://cdn.example/1.mp3'',
                                enclosure_type = Str ''audio/mpeg'' \<rparr> \<rparr>"

definition item_media :: rss_item where
  "item_media =
     blank_item\<lparr> item_guid := Str ''g3'',
       item_mediaContent := Some [\<lparr> dollar = Some \<lparr> attr_url = Str ''http://cdn.example/3.mp4'',
                                                      attr_type = Str ''video/mp4'' \<rparr> \<rparr>] \<rparr>"

definition item_both :: rss_item where
  "item_both =
     item_enclosed\<lparr>
       item_mediaContent := Some [\<lparr> dollar = Some \<lparr> attr_url = Str ''http://cdn.example/1.mp4'',
                                                      attr_type = Str ''video/mp4'' \<rparr> \<rparr>] \<rparr>"

definition item_untyped :: rss_item where
  "item_untyped =
     item_both\<lparr>
       item_enclosure := Some \<lparr> enclosure_url = Str ''http://cdn.example/1.mp3'',
                                enclosure_type = Undefined \<rparr> \<rparr>"

definition item_empty_enclosure :: rss_item where
  "item_empty_enclosure =
     item_both\<lparr>
       item_enclosure := Some \<lparr> enclosure_url = Str [],
                                enclosure_type = Str ''audio/mpeg'' \<rparr> \<rparr>"

definition item_two_media :: rss_item where
  "item_two_media =
     blank_item\<lparr>
       item_mediaContent :=
         Some [\<lparr> dollar = Some \<lparr> attr_url = Str ''http://cdn.example/4a.mp3'',
                                  attr_type = Str ''audio/mpeg'' \<rparr> \<rparr>,
               \<lparr> dollar = Some \<lparr> attr_url = Str ''http://cdn.example/4b.mp4'',
                                  attr_type = Str ''video/mp4'' \<rparr> \<rparr>] \<rparr>"

definition item_second_only :: rss_item where
  "item_second_only =
     blank_item\<lparr>
       item_mediaContent :=
         Some [\<lparr> dollar = None \<rparr>,
               \<lparr> dollar = Some \<lparr> attr_url = Str ''http://cdn.example/5b.mp4'',
                                  attr_type = Str ''video/mp4'' \<rparr> \<rparr>] \<rparr>"

definition item_empty_snippet :: rss_item where
  "item_empty_snippet =
     item_enclosed\<lparr> item_contentSnippet := Str [], item_summary := Str ''Summary'' \<rparr>"

definition item_summary_only :: rss_item where
  "item_summary_only = item_enclosed\<lparr> item_summary := Str ''Summary'' \<rparr>"

definition feed_ok :: rss_feed where
  "feed_ok = \<lparr> feed_title = Str ''Show'', feed_itunes = None, feed_image = None,
               feed_items = Some [item_enclosed, blank_item, item_media] \<rparr>"

definition feed_silent :: rss_feed where
  "feed_silent = \<lparr> feed_title = Str ''Show'', feed_itunes = None, feed_image = None,
                   feed_items = Some [blank_item, blank_item] \<rparr>"

definition feed_hosted :: rss_feed where
  "feed_hosted = feed_ok\<lparr> feed_itunes := Some \<lparr> feed_itunes_author = Str ''Host'',
                                                    feed_itunes_image = Undefined \<rparr> \<rparr>"

definition feed_untitled :: rss_feed where
  "feed_untitled = feed_ok\<lparr> feed_title := Undefined,
                              feed_itunes := Some \<lparr> feed_itunes_author = Str [],
                                                    feed_itunes_image = Undefined \<rparr> \<rparr>"

definition feed_artwork :: rss_feed where
  "feed_artwork =
     feed_ok\<lparr> feed_itunes := Some \<lparr> feed_itunes_author = Undefined,
                                      feed_itunes_image = Str ''http://example.com/art.jpg'' \<rparr> \<rparr>"

definition req_ok :: request where
  "req_ok = \<lparr> feedUrl = Some ''http://example.com/feed'' \<rparr>"

definition req_padded :: request where
  "req_padded = \<lparr> feedUrl = Some '' http://example.com/feed'' \<rparr>"

definition req_missing :: request where
  "req_missing = \<lparr> feedUrl = None \<rparr>"

definition req_ftp :: request where
  "req_ftp = \<lparr> feedUrl = Some ''ftp://x'' \<rparr>"

definition resolves :: "rss_feed \<Rightarrow> string \<Rightarrow> promise" where
  "resolves feed url = Settles 250 (Resolved (Some feed))"

definition rejects :: "string \<Rightarrow> string \<Rightarrow> promise" where
  "rejects message url = Settles 40 (Rejected message)"

definition hangs :: "string \<Rightarrow> promise" where
  "hangs url = Never"

definition empty_cache :: cache where
  "empty_cache = (\<lambda>key. None)"

definition after_success :: "cache \<times> handled" where
  "after_success = episodes_route (resolves feed_ok) empty_cache 0 req_ok"

definition after_failure :: "cache \<times> handled" where
  "after_failure = episodes_route (rejects ''Status code 500'') empty_cache 0 req_ok"

definition after_missing :: "cache \<times> handled" where
  "after_missing = episodes_route (resolves feed_ok) empty_cache 0 req_missing"

definition after_ftp :: "cache \<times> handled" where
  "after_ftp = episodes_route (resolves feed_ok) empty_cache 0 req_ftp"

section \<open>Auxiliary facts\<close>

subsection \<open>The normalizer and the handler\<close>

lemma mediaUrl_truthy_or_Null: "truthy (mediaUrl item) \<or> mediaUrl item = Null"
  by (simp add: mediaUrl_def js_or_def)

lemma truthy_mediaUrl_iff: "truthy (mediaUrl item) \<longleftrightarrow> mediaUrl item \<noteq> Null"
  using mediaUrl_truthy_or_Null [of item] by auto

lemma ep_mediaUrl_toEpisode: "ep_mediaUrl (toEpisode feed item) = mediaUrl item"
  by (simp add: toEpisode_def)

lemma episodes_of_eq:
  "episodes_of feed its =
     map (toEpisode feed) (filter (\<lambda>i. ep_mediaUrl (toEpisode feed i) \<noteq> Null) its)"
  by (simp add: episodes_of_def filter_map o_def ep_mediaUrl_toEpisode truthy_mediaUrl_iff)

lemma handler_fetches:
  assumes "feedUrl req = Some raw" and "raw \<noteq> []"
    and "decodeURIComponent raw = Some decoded" and "test_http (trim decoded)"
  shows "episodes_handler parseURL req =
           \<lparr> outcome = Responded (respond (snd (race (parseURL (trim decoded))))),
             elapsed = fst (race (parseURL (trim decoded))),
             fetched = [trim decoded] \<rparr>"
  using assms by (simp add: episodes_handler_def Let_def split: prod.splits)

lemma race_in_time: "d < 9000 \<Longrightarrow> race (Settles d r) = (d, r)"
  by (simp add: race_def)

lemma handler_rejects_invalid_input:
  "(feedUrl req = None \<or> feedUrl req = Some [] \<longrightarrow>
      episodes_handler parseURL req =
        \<lparr> outcome = Responded \<lparr> status = 400, headers = [], body = ErrorBody ''Missing feedUrl'' \<rparr>,
          elapsed = 0, fetched = [] \<rparr>)
   \<and> (feedUrl req' = Some raw \<and> raw \<noteq> [] \<and> decodeURIComponent raw = Some decoded
        \<and> \<not> test_http (trim decoded) \<longrightarrow>
      episodes_handler parseURL req' =
        \<lparr> outcome = Responded \<lparr> status = 400, headers = [], body = ErrorBody ''Invalid feed URL'' \<rparr>,
          elapsed = 0, fetched = [] \<rparr>)"
  by (auto simp: episodes_handler_def sent_def json_def)

subsection \<open>The cache\<close>

lemma cache_get_empty: "cache_get empty_cache now key = (empty_cache, None)"
  by (simp add: cache_get_def empty_cache_def)

lemma cache_get_set:
  "now' \<le> now + stdTTL * 1000 \<Longrightarrow>
     cache_get (cache_set c now key v) now' key = (cache_set c now key v, Some v)"
  by (simp add: cache_get_def cache_set_def)

lemma cacheMW_miss:
  assumes "snd (cache_get c now (kb req)) = None" and "outcome (handler req) = Responded r"
  shows "cacheMW kb handler c now req =
           (cache_set (fst (cache_get c now (kb req))) (now + elapsed (handler req)) (kb req) (body r),
            (handler req)\<lparr> outcome := Responded (r\<lparr> headers := headers r @ [(''X-Cache'', ''MISS'')] \<rparr>) \<rparr>)"
  using assms by (cases "cache_get c now (kb req)") (simp add: cacheMW_def Let_def)

lemma cacheMW_hit:
  assumes "cache_get c now (kb req) = (c1, Some v)"
  shows "cacheMW kb handler c now req =
           (c1, sent \<lparr> status = 200, headers = [(''X-Cache'', ''HIT'')], body = v \<rparr>)"
  using assms by (simp add: cacheMW_def Let_def)

lemma replay_of_stored_body:
  assumes "c key = Some (v, t)" and "now \<le> t" and "kb req = key"
  shows "snd (cacheMW kb handler c now req) =
           \<lparr> outcome = Responded \<lparr> status = 200, headers = [(''X-Cache'', ''HIT'')], body = v \<rparr>,
             elapsed = 0, fetched = [] \<rparr>"
proof -
  from assms have "cache_get c now (kb req) = (c, Some v)"
    by (simp add: cache_get_def)
  from cacheMW_hit [where kb = kb and handler = handler, OF this]
  show ?thesis
    by (simp add: sent_def)
qed

subsection \<open>The examples, evaluated\<close>

lemma decode_example: "decodeURIComponent ''http://example.com/feed'' = Some ''http://example.com/feed''"
  by code_simp

lemma trim_example: "trim ''http://example.com/feed'' = ''http://example.com/feed''"
  by code_simp

lemma test_example: "test_http ''http://example.com/feed''"
  by code_simp

lemma req_ok_valid:
  "feedUrl req_ok = Some ''http://example.com/feed''"
  "''http://example.com/feed'' \<noteq> []"
  "test_http (trim ''http://example.com/feed'')"
  by (simp_all add: req_ok_def trim_example test_example)

lemma key_req_ok: "keyBuilder req_ok = ''episodes:http://example.com/feed''"
  by (simp add: keyBuilder_def req_ok_def)

lemma handler_on_req_ok:
  "episodes_handler parseURL req_ok =
     \<lparr> outcome = Responded (respond (snd (race (parseURL ''http://example.com/feed'')))),
       elapsed = fst (race (parseURL ''http://example.com/feed'')),
       fetched = [''http://example.com/feed''] \<rparr>"
  using handler_fetches [where parseURL = parseURL, OF req_ok_valid(1,2) decode_example req_ok_valid(3)]
  by (simp add: trim_example)

lemma req_padded_valid:
  "feedUrl req_padded = Some '' http://example.com/feed''"
  "'' http://example.com/feed'' \<noteq> []"
  "decodeURIComponent '' http://example.com/feed'' = Some '' http://example.com/feed''"
  "trim '' http://example.com/feed'' = ''http://example.com/feed''"
  by (simp add: req_padded_def, simp, code_simp, code_simp)

lemma key_req_padded: "keyBuilder req_padded = ''episodes: http://example.com/feed''"
  by (simp add: keyBuilder_def req_padded_def)

lemma handler_on_req_padded:
  "episodes_handler parseURL req_padded =
     \<lparr> outcome = Responded (respond (snd (race (parseURL ''http://example.com/feed'')))),
       elapsed = fst (race (parseURL ''http://example.com/feed'')),
       fetched = [''http://example.com/feed''] \<rparr>"
  using handler_fetches [where parseURL = parseURL, OF req_padded_valid(1,2,3)]
  by (simp add: req_padded_valid(4) test_example)

lemma ftp_example:
  "decodeURIComponent ''ftp://x'' = Some ''ftp://x''"
  "trim ''ftp://x'' = ''ftp://x''"
  "\<not> test_http ''ftp://x''"
  by code_simp+

lemma feed_ok_fields:
  "feed_items feed_ok = Some [item_enclosed, blank_item, item_media]"
  "feed_title feed_ok = Str ''Show''"
  "feed_itunes feed_ok = None"
  by (simp_all add: feed_ok_def)

lemma feed_ok_media:
  "ep_mediaUrl (toEpisode feed_ok item_enclosed) = Str ''http://cdn.example/1.mp3''"
  "ep_mediaUrl (toEpisode feed_ok blank_item) = Null"
  "ep_mediaUrl (toEpisode feed_ok item_media) = Str ''http://cdn.example/3.mp4''"
  by code_simp+

lemma respond_feed_ok:
  "respond (Resolved (Some feed_ok)) =
     \<lparr> status = 200,
       headers = [(''Cache-Control'', ''public, max-age=60'')],
       body = Payload
         \<lparr> body_title = Str ''Show'', body_author = Str ''Show'',
           body_episodes = [toEpisode feed_ok item_enclosed, toEpisode feed_ok item_media] \<rparr> \<rparr>"
  by (simp add: respond_def feed_ok_fields episodes_of_def feed_ok_media js_or_def opt_chain_def)

lemma after_success_eval:
  "after_success =
     (cache_set empty_cache 250 ''episodes:http://example.com/feed''
        (Payload \<lparr> body_title = Str ''Show'', body_author = Str ''Show'',
                   body_episodes = [toEpisode feed_ok item_enclosed, toEpisode feed_ok item_media] \<rparr>),
      \<lparr> outcome = Responded
          \<lparr> status = 200,
            headers = [(''Cache-Control'', ''public, max-age=60''), (''X-Cache'', ''MISS'')],
            body = Payload
              \<lparr> body_title = Str ''Show'', body_author = Str ''Show'',
                body_episodes = [toEpisode feed_ok item_enclosed, toEpisode feed_ok item_media] \<rparr> \<rparr>,
        elapsed = 250, fetched = [''http://example.com/feed''] \<rparr>)"
proof -
  have miss: "snd (cache_get empty_cache 0 (keyBuilder req_ok)) = None"
    by (simp add: cache_get_empty)
  have h: "episodes_handler (resolves feed_ok) req_ok =
             \<lparr> outcome = Responded (respond (Resolved (Some feed_ok))), elapsed = 250,
               fetched = [''http://example.com/feed''] \<rparr>"
    by (simp add: handler_on_req_ok resolves_def race_def)
  then have "outcome (episodes_handler (resolves feed_ok) req_ok) =
               Responded (respond (Resolved (Some feed_ok)))"
    by simp
  from cacheMW_miss [where kb = keyBuilder and handler = "episodes_handler (resolves feed_ok)",
                     OF miss this]
  show ?thesis
    by (simp add: after_success_def episodes_route_def cache_get_empty h respond_feed_ok key_req_ok)
qed

lemma after_failure_eval:
  "after_failure =
     (cache_set empty_cache 40 ''episodes:http://example.com/feed''
        (ErrorDetails ''Feed not found or unavailable'' ''Status code 500''),
      \<lparr> outcome = Responded
          \<lparr> status = 404, headers = [(''X-Cache'', ''MISS'')],
            body = ErrorDetails ''Feed not found or unavailable'' ''Status code 500'' \<rparr>,
        elapsed = 40, fetched = [''http://example.com/feed''] \<rparr>)"
proof -
  have miss: "snd (cache_get empty_cache 0 (keyBuilder req_ok)) = None"
    by (simp add: cache_get_empty)
  have h: "episodes_handler (rejects ''Status code 500'') req_ok =
             \<lparr> outcome = Responded (catch_response ''Status code 500''), elapsed = 40,
               fetched = [''http://example.com/feed''] \<rparr>"
    by (simp add: handler_on_req_ok rejects_def race_def respond_def)
  then have "outcome (episodes_handler (rejects ''Status code 500'') req_ok) =
               Responded (catch_response ''Status code 500'')"
    by simp
  from cacheMW_miss [where kb = keyBuilder and handler = "episodes_handler (rejects ''Status code 500'')",
                     OF miss this]
  show ?thesis
    by (simp add: after_failure_def episodes_route_def cache_get_empty h key_req_ok
                  catch_response_def json_def)
qed

lemma key_invalid:
  "keyBuilder req_missing = ''episodes:undefined''"
  "keyBuilder req_ftp = ''episodes:ftp://x''"
  by (simp_all add: keyBuilder_def req_missing_def req_ftp_def)

lemma handler_on_invalid:
  "episodes_handler parseURL req_missing =
     \<lparr> outcome = Responded \<lparr> status = 400, headers = [], body = ErrorBody ''Missing feedUrl'' \<rparr>,
       elapsed = 0, fetched = [] \<rparr>"
  "episodes_handler parseURL req_ftp =
     \<lparr> outcome = Responded \<lparr> status = 400, headers = [], body = ErrorBody ''Invalid feed URL'' \<rparr>,
       elapsed = 0, fetched = [] \<rparr>"
  using handler_rejects_invalid_input [of req_missing parseURL req_ftp "''ftp://x''" "''ftp://x''"]
  by (simp_all add: req_missing_def req_ftp_def ftp_example)

lemma after_missing_eval:
  "after_missing =
     (cache_set empty_cache 0 ''episodes:undefined'' (ErrorBody ''Missing feedUrl''),
      \<lparr> outcome = Responded \<lparr> status = 400, headers = [(''X-Cache'', ''MISS'')],
                              body = ErrorBody ''Missing feedUrl'' \<rparr>,
        elapsed = 0, fetched = [] \<rparr>)"
proof -
  have miss: "snd (cache_get empty_cache 0 (keyBuilder req_missing)) = None"
    by (simp add: cache_get_empty)
  have "outcome (episodes_handler (resolves feed_ok) req_missing) =
          Responded \<lparr> status = 400, headers = [], body = ErrorBody ''Missing feedUrl'' \<rparr>"
    by (simp add: handler_on_invalid)
  from cacheMW_miss [where kb = keyBuilder and handler = "episodes_handler (resolves feed_ok)",
                     OF miss this]
  show ?thesis
    by (simp add: after_missing_def episodes_route_def cache_get_empty handler_on_invalid key_invalid)
qed

lemma after_ftp_eval:
  "after_ftp =
     (cache_set empty_cache 0 ''episodes:ftp://x'' (ErrorBody ''Invalid feed URL''),
      \<lparr> outcome = Responded \<lparr> status = 400, headers = [(''X-Cache'', ''MISS'')],
                              body = ErrorBody ''Invalid feed URL'' \<rparr>,
        elapsed = 0, fetched = [] \<rparr>)"
proof -
  have miss: "snd (cache_get empty_cache 0 (keyBuilder req_ftp)) = None"
    by (simp add: cache_get_empty)
  have "outcome (episodes_handler (resolves feed_ok) req_ftp) =
          Responded \<lparr> status = 400, headers = [], body = ErrorBody ''Invalid feed URL'' \<rparr>"
    by (simp add: handler_on_invalid)
  from cacheMW_miss [where kb = keyBuilder and handler = "episodes_handler (resolves feed_ok)",
                     OF miss this]
  show ?thesis
    by (simp add: after_ftp_def episodes_route_def cache_get_empty handler_on_invalid key_invalid)
qed

section \<open>Properties of the episodes route\<close>

subsection \<open>The episodes returned are the playable items\<close>

text \<open>
  Claim C1. When the request carries a feed URL that decodes to an http(s) URL, the feed
  is retrieved before the timer fires and at least one of its items has a non-null
  \<open>mediaUrl\<close> after the field-precedence mapping, the handler answers 200 with exactly the
  mapped items whose \<open>mediaUrl\<close> is non-null, in the order of the document: the number of
  episodes is the number of such items, and every episode returned has a non-null
  \<open>mediaUrl\<close>.
\<close>

theorem episodes_exactly_playable_items:
  assumes "feedUrl req = Some raw" and "raw \<noteq> []"
    and "decodeURIComponent raw = Some decoded" and "test_http (trim decoded)"
    and "parseURL (trim decoded) = Settles d (Resolved (Some feed))" and "d < 9000"
    and "feed_items feed = Some its"
    and "\<exists>i \<in> set its. ep_mediaUrl (toEpisode feed i) \<noteq> Null"
  shows "outcome (episodes_handler parseURL req) =
           Responded
             \<lparr> status = 200,
               headers = [(''Cache-Control'', ''public, max-age=60'')],
               body = Payload
                 \<lparr> body_title = feed_title feed,
                   body_author =
                     js_or (js_or (opt_chain (feed_itunes feed) feed_itunes_author)
                                  (feed_title feed))
                           (Str ''Unknown''),
                   body_episodes =
                     map (toEpisode feed)
                       (filter (\<lambda>i. ep_mediaUrl (toEpisode feed i) \<noteq> Null) its) \<rparr> \<rparr>
         \<and> length (map (toEpisode feed)
                      (filter (\<lambda>i. ep_mediaUrl (toEpisode feed i) \<noteq> Null) its)) =
             length (filter (\<lambda>i. ep_mediaUrl (toEpisode feed i) \<noteq> Null) its)
         \<and> (\<forall>e \<in> set (map (toEpisode feed)
                            (filter (\<lambda>i. ep_mediaUrl (toEpisode feed i) \<noteq> Null) its)).
               ep_mediaUrl e \<noteq> Null)"
proof -
  let ?keep = "filter (\<lambda>i. ep_mediaUrl (toEpisode feed i) \<noteq> Null) its"
  from assms(8) have keep: "?keep \<noteq> []"
    by (auto simp: filter_empty_conv)
  then have "its \<noteq> []" by auto
  then obtain i rest where cons: "its = i # rest" by (cases its) auto
  have eps: "episodes_of feed its = map (toEpisode feed) ?keep"
    by (rule episodes_of_eq)
  with keep have nonempty: "episodes_of feed its \<noteq> []" by simp
  have "respond (Resolved (Some feed)) =
          \<lparr> status = 200, headers = [(''Cache-Control'', ''public, max-age=60'')],
            body = Payload
              \<lparr> body_title = feed_title feed,
                body_author =
                  js_or (js_or (opt_chain (feed_itunes feed) feed_itunes_author) (feed_title feed))
                        (Str ''Unknown''),
                body_episodes = episodes_of feed its \<rparr> \<rparr>"
    using assms(7) nonempty cons by (simp add: respond_def Let_def)
  moreover have "outcome (episodes_handler parseURL req) = Responded (respond (Resolved (Some feed)))"
    using handler_fetches [OF assms(1-4), of parseURL] assms(5,6) by (simp add: race_in_time)
  ultimately show ?thesis
    using eps by simp
qed

theorem episodes_exactly_playable_items_witness:
  "feedUrl req_ok = Some ''http://example.com/feed''
   \<and> feed_items feed_ok = Some [item_enclosed, blank_item, item_media]
   \<and> ep_mediaUrl (toEpisode feed_ok item_enclosed) = Str ''http://cdn.example/1.mp3''
   \<and> ep_mediaUrl (toEpisode feed_ok blank_item) = Null
   \<and> ep_mediaUrl (toEpisode feed_ok item_media) = Str ''http://cdn.example/3.mp4''
   \<and> outcome (episodes_handler (resolves feed_ok) req_ok) =
       Responded
         \<lparr> status = 200,
           headers = [(''Cache-Control'', ''public, max-age=60'')],
           body = Payload
             \<lparr> body_title = Str ''Show'',
               body_author = Str ''Show'',
               body_episodes = [toEpisode feed_ok item_enclosed, toEpisode feed_ok item_media] \<rparr> \<rparr>"
proof -
  have ex: "\<exists>i \<in> set [item_enclosed, blank_item, item_media].
              ep_mediaUrl (toEpisode feed_ok i) \<noteq> Null"
    by (simp add: feed_ok_media)
  have fetch: "resolves feed_ok (trim ''http://example.com/feed'') =
                 Settles 250 (Resolved (Some feed_ok))"
    by (simp add: resolves_def)
  have "250 < (9000::nat)"
    by simp
  from episodes_exactly_playable_items
         [where parseURL = "resolves feed_ok" and d = 250,
          OF req_ok_valid(1,2) decode_example req_ok_valid(3) fetch this feed_ok_fields(1) ex]
  show ?thesis
    by (simp add: req_ok_valid feed_ok_fields feed_ok_media js_or_def opt_chain_def)
qed

subsection \<open>A feed without playable media\<close>

text \<open>
  Claim C2. When the feed is retrieved and parsed but every item has a null \<open>mediaUrl\<close>
  after the mapping, the handler answers 404 with the body \<open>{error}\<close>, whose diagnostic
  is \<open>"No playable media in feed"\<close> (\<open>"No episodes found"\<close> when the feed has no item at
  all); this response differs from every response of the \<open>catch\<close> branch, which is what
  a feed that cannot be fetched or parsed produces.
\<close>

theorem no_playable_media_is_not_found:
  assumes "feedUrl req = Some raw" and "raw \<noteq> []"
    and "decodeURIComponent raw = Some decoded" and "test_http (trim decoded)"
    and "parseURL (trim decoded) = Settles d (Resolved (Some feed))" and "d < 9000"
    and "feed_items feed = Some its"
    and "\<forall>i \<in> set its. ep_mediaUrl (toEpisode feed i) = Null"
  shows "outcome (episodes_handler parseURL req) =
           Responded
             \<lparr> status = 404, headers = [],
               body = ErrorBody (if its = [] then ''No episodes found''
                                 else ''No playable media in feed'') \<rparr>
         \<and> (\<forall>message.
               \<lparr> status = 404, headers = [],
                 body = ErrorBody (if its = [] then ''No episodes found''
                                   else ''No playable media in feed'') \<rparr>
               \<noteq> catch_response message)"
proof -
  have "filter (\<lambda>i. ep_mediaUrl (toEpisode feed i) \<noteq> Null) its = []"
    using assms(8) by (simp add: filter_empty_conv)
  then have none: "episodes_of feed its = []"
    by (simp add: episodes_of_eq)
  have "respond (Resolved (Some feed)) =
          json 404 (ErrorBody (if its = [] then ''No episodes found''
                               else ''No playable media in feed''))"
  proof (cases its)
    case Nil
    with assms(7) show ?thesis by (simp add: respond_def)
  next
    case (Cons i rest)
    with assms(7) none show ?thesis by (simp add: respond_def Let_def)
  qed
  moreover have "outcome (episodes_handler parseURL req) = Responded (respond (Resolved (Some feed)))"
    using handler_fetches [OF assms(1-4), of parseURL] assms(5,6) by (simp add: race_in_time)
  ultimately show ?thesis
    by (simp add: json_def catch_response_def)
qed

theorem no_playable_media_is_not_found_witness:
  "feedUrl req_ok = Some ''http://example.com/feed''
   \<and> feed_items feed_silent = Some [blank_item, blank_item]
   \<and> ep_mediaUrl (toEpisode feed_silent blank_item) = Null
   \<and> outcome (episodes_handler (resolves feed_silent) req_ok) =
       Responded \<lparr> status = 404, headers = [], body = ErrorBody ''No playable media in feed'' \<rparr>
   \<and> outcome (episodes_handler (rejects ''Status code 500'') req_ok) =
       Responded \<lparr> status = 404, headers = [],
                   body = ErrorDetails ''Feed not found or unavailable'' ''Status code 500'' \<rparr>"
proof -
  have its: "feed_items feed_silent = Some [blank_item, blank_item]"
    by (simp add: feed_silent_def)
  have m: "ep_mediaUrl (toEpisode feed_silent blank_item) = Null"
    by code_simp
  have all: "\<forall>i \<in> set [blank_item, blank_item]. ep_mediaUrl (toEpisode feed_silent i) = Null"
    using m by simp
  have fetch: "resolves feed_silent (trim ''http://example.com/feed'') =
                 Settles 250 (Resolved (Some feed_silent))"
    by (simp add: resolves_def)
  have other: "outcome (episodes_handler (rejects ''Status code 500'') req_ok) =
       Responded \<lparr> status = 404, headers = [],
                   body = ErrorDetails ''Feed not found or unavailable'' ''Status code 500'' \<rparr>"
    by (simp add: handler_on_req_ok rejects_def race_def respond_def catch_response_def json_def)
  have "250 < (9000::nat)"
    by simp
  from no_playable_media_is_not_found
         [where parseURL = "resolves feed_silent" and d = 250,
          OF req_ok_valid(1,2) decode_example req_ok_valid(3) fetch this its all]
  show ?thesis
    using its m other by (simp add: req_ok_valid)
qed

subsection \<open>The enclosure takes precedence over \<open>media:content\<close>, field by field\<close>

text \<open>
  Claim C3. The two fields are decided one by one. The \<open>mediaUrl\<close> of the normalized
  episode is the \<open>url\<close> of the item's enclosure when that is a non-empty string, else
  the \<open>url\<close> attribute of the first \<open>media:content\<close> entry when that is a non-empty
  string, else \<open>null\<close>. Its \<open>mediaType\<close> is chosen in the same way from the \<open>type\<close>
  attributes. So an item with both an enclosure and a \<open>media:content\<close> entry gets from
  the enclosure only the fields for which the enclosure holds a non-empty string; entries
  after the first are never read.
\<close>

theorem media_precedence_per_field:
  "ep_mediaUrl (toEpisode feed item) =
     (if truthy (opt_chain (item_enclosure item) enclosure_url)
      then opt_chain (item_enclosure item) enclosure_url
      else if truthy (opt_chain (mc0_attrs item) attr_url)
      then opt_chain (mc0_attrs item) attr_url
      else Null)
   \<and> ep_mediaType (toEpisode feed item) =
     (if truthy (opt_chain (item_enclosure item) enclosure_type)
      then opt_chain (item_enclosure item) enclosure_type
      else if truthy (opt_chain (mc0_attrs item) attr_type)
      then opt_chain (mc0_attrs item) attr_type
      else Null)"
  by (simp add: toEpisode_def mediaUrl_def mediaType_def js_or_def nullish_def)

text \<open>The synthetic item with both an enclosure and a \<open>media:content\<close> entry; items
  with one entry, with two entries, and with a first entry that has no attributes; the
  item with neither; and the item whose enclosure has a URL but no type.\<close>

theorem media_precedence_per_field_witness:
  "ep_mediaUrl (toEpisode feed_ok item_both) = Str ''http://cdn.example/1.mp3''
   \<and> ep_mediaType (toEpisode feed_ok item_both) = Str ''audio/mpeg''
   \<and> ep_mediaUrl (toEpisode feed_ok item_media) = Str ''http://cdn.example/3.mp4''
   \<and> ep_mediaType (toEpisode feed_ok item_media) = Str ''video/mp4''
   \<and> ep_mediaUrl (toEpisode feed_ok item_two_media) = Str ''http://cdn.example/4a.mp3''
   \<and> ep_mediaType (toEpisode feed_ok item_two_media) = Str ''audio/mpeg''
   \<and> ep_mediaUrl (toEpisode feed_ok item_second_only) = Null
   \<and> ep_mediaType (toEpisode feed_ok item_second_only) = Null
   \<and> ep_mediaUrl (toEpisode feed_ok blank_item) = Null
   \<and> ep_mediaType (toEpisode feed_ok blank_item) = Null
   \<and> ep_mediaUrl (toEpisode feed_ok item_untyped) = Str ''http://cdn.example/1.mp3''
   \<and> ep_mediaType (toEpisode feed_ok item_untyped) = Str ''video/mp4''"
proof -
  have "opt_chain (item_enclosure item_both) enclosure_url = Str ''http://cdn.example/1.mp3''"
    "opt_chain (item_enclosure item_both) enclosure_type = Str ''audio/mpeg''"
    "opt_chain (item_enclosure item_media) enclosure_url = Undefined"
    "opt_chain (item_enclosure item_media) enclosure_type = Undefined"
    "opt_chain (mc0_attrs item_media) attr_url = Str ''http://cdn.example/3.mp4''"
    "opt_chain (mc0_attrs item_media) attr_type = Str ''video/mp4''"
    "opt_chain (item_enclosure item_two_media) enclosure_url = Undefined"
    "opt_chain (item_enclosure item_two_media) enclosure_type = Undefined"
    "opt_chain (mc0_attrs item_two_media) attr_url = Str ''http://cdn.example/4a.mp3''"
    "opt_chain (mc0_attrs item_two_media) attr_type = Str ''audio/mpeg''"
    "opt_chain (item_enclosure item_second_only) enclosure_url = Undefined"
    "opt_chain (item_enclosure item_second_only) enclosure_type = Undefined"
    "opt_chain (mc0_attrs item_second_only) attr_url = Undefined"
    "opt_chain (mc0_attrs item_second_only) attr_type = Undefined"
    "opt_chain (item_enclosure blank_item) enclosure_url = Undefined"
    "opt_chain (item_enclosure blank_item) enclosure_type = Undefined"
    "opt_chain (mc0_attrs blank_item) attr_url = Undefined"
    "opt_chain (mc0_attrs blank_item) attr_type = Undefined"
    "opt_chain (item_enclosure item_untyped) enclosure_url = Str ''http://cdn.example/1.mp3''"
    "opt_chain (item_enclosure item_untyped) enclosure_type = Undefined"
    "opt_chain (mc0_attrs item_untyped) attr_type = Str ''video/mp4''"
    by code_simp+
  with media_precedence_per_field [of feed_ok item_both]
    media_precedence_per_field [of feed_ok item_media]
    media_precedence_per_field [of feed_ok item_two_media]
    media_precedence_per_field [of feed_ok item_second_only]
    media_precedence_per_field [of feed_ok blank_item]
    media_precedence_per_field [of feed_ok item_untyped]
  show ?thesis by simp
qed

text \<open>
  ``An item that has both an enclosure and a \<open>media:content\<close> entry gets the enclosure's
  URL and the enclosure's type'' fails at two items that have both. The enclosure of the
  first has a URL and no \<open>type\<close> attribute: the episode takes the enclosure's URL and
  the type of the \<open>media:content\<close> entry. The enclosure of the second has an empty
  \<open>url\<close>: the episode takes the URL of the \<open>media:content\<close> entry and the enclosure's
  type.
\<close>

theorem enclosure_precedence_counterexample:
  "item_enclosure item_untyped =
     Some \<lparr> enclosure_url = Str ''http://cdn.example/1.mp3'', enclosure_type = Undefined \<rparr>
   \<and> mc item_untyped =
       [\<lparr> dollar = Some \<lparr> attr_url = Str ''http://cdn.example/1.mp4'',
                           attr_type = Str ''video/mp4'' \<rparr> \<rparr>]
   \<and> ep_mediaUrl (toEpisode feed_ok item_untyped) = Str ''http://cdn.example/1.mp3''
   \<and> ep_mediaType (toEpisode feed_ok item_untyped) = Str ''video/mp4''
   \<and> ep_mediaType (toEpisode feed_ok item_untyped)
       \<noteq> opt_chain (item_enclosure item_untyped) enclosure_type
   \<and> ep_mediaType (toEpisode feed_ok item_untyped) \<noteq> Null
   \<and> item_enclosure item_empty_enclosure =
       Some \<lparr> enclosure_url = Str [], enclosure_type = Str ''audio/mpeg'' \<rparr>
   \<and> mc item_empty_enclosure = mc item_untyped
   \<and> ep_mediaUrl (toEpisode feed_ok item_empty_enclosure) = Str ''http://cdn.example/1.mp4''
   \<and> ep_mediaUrl (toEpisode feed_ok item_empty_enclosure)
       \<noteq> opt_chain (item_enclosure item_empty_enclosure) enclosure_url
   \<and> ep_mediaType (toEpisode feed_ok item_empty_enclosure) = Str ''audio/mpeg''"
  by code_simp

subsection \<open>The cache key and a repeated request\<close>

text \<open>
  Claim C4. The cache key is the string \<open>episodes:\<close> followed by the query value
  \<open>feedUrl\<close> as the request carries it (\<open>undefined\<close> when it is missing); the key builder
  neither decodes nor trims it. When a request misses the cache and the handler
  answers 200 with the episodes of the feed, a second request with the same query value
  that arrives no later than 120 s after that response is answered from the cache with
  the same body, and \<open>rss.parseURL\<close> is not called for it, whatever it would have
  returned.
\<close>

theorem repeated_request_is_served_from_cache:
  assumes "snd (cache_get c now (keyBuilder req)) = None"
    and "episodes_route parseURL c now req = (c', h)"
    and "outcome h = Responded r" and "status r = 200"
    and "now' \<le> now + elapsed h + 120000"
  shows "keyBuilder req = ''episodes:'' @ (case feedUrl req of None \<Rightarrow> ''undefined'' | Some s \<Rightarrow> s)
         \<and> episodes_route parseURL' c' now' req =
             (c', \<lparr> outcome = Responded \<lparr> status = 200, headers = [(''X-Cache'', ''HIT'')],
                                         body = body r \<rparr>,
                    elapsed = 0, fetched = [] \<rparr>)"
proof -
  let ?handler = "episodes_handler parseURL"
  let ?key = "keyBuilder req"
  from assms(2) have run: "cacheMW keyBuilder ?handler c now req = (c', h)"
    by (simp add: episodes_route_def)
  have "\<exists>r0. outcome (?handler req) = Responded r0"
  proof (cases "outcome (?handler req)")
    case (Responded r0)
    then show ?thesis by simp
  next
    case (Threw e)
    with assms(1) have "cacheMW keyBuilder ?handler c now req = (fst (cache_get c now ?key), ?handler req)"
      by (cases "cache_get c now ?key") (simp add: cacheMW_def Let_def)
    with run Threw assms(3) show ?thesis by simp
  qed
  then obtain r0 where r0: "outcome (?handler req) = Responded r0" ..
  from cacheMW_miss [where kb = keyBuilder and handler = ?handler, OF assms(1) r0] run
  have c': "c' = cache_set (fst (cache_get c now ?key)) (now + elapsed (?handler req)) ?key (body r0)"
    and h: "h = (?handler req)\<lparr> outcome := Responded (r0\<lparr> headers := headers r0 @ [(''X-Cache'', ''MISS'')] \<rparr>) \<rparr>"
    by simp_all
  from h assms(3) have body: "body r = body r0" and el: "elapsed h = elapsed (?handler req)"
    by auto
  from assms(5) el have "now' \<le> (now + elapsed (?handler req)) + stdTTL * 1000"
    by (simp add: stdTTL_def)
  from cache_get_set [OF this] c'
  have "cache_get c' now' ?key = (c', Some (body r0))"
    by simp
  from cacheMW_hit [where kb = keyBuilder and handler = "episodes_handler parseURL'", OF this]
  have "episodes_route parseURL' c' now' req =
          (c', sent \<lparr> status = 200, headers = [(''X-Cache'', ''HIT'')], body = body r0 \<rparr>)"
    by (simp add: episodes_route_def)
  with body show ?thesis
    by (simp add: sent_def keyBuilder_def)
qed

theorem repeated_request_is_served_from_cache_witness:
  "snd (cache_get empty_cache 0 (keyBuilder req_ok)) = None
   \<and> elapsed (snd after_success) = 250
   \<and> episodes_route hangs (fst after_success) 120250 req_ok =
       (fst after_success,
        \<lparr> outcome = Responded
            \<lparr> status = 200, headers = [(''X-Cache'', ''HIT'')],
              body = Payload
                \<lparr> body_title = Str ''Show'', body_author = Str ''Show'',
                  body_episodes = [toEpisode feed_ok item_enclosed, toEpisode feed_ok item_media] \<rparr> \<rparr>,
          elapsed = 0, fetched = [] \<rparr>)"
proof -
  have miss: "snd (cache_get empty_cache 0 (keyBuilder req_ok)) = None"
    by (simp add: cache_get_empty)
  have run: "episodes_route (resolves feed_ok) empty_cache 0 req_ok = (fst after_success, snd after_success)"
    by (simp add: after_success_def)
  have out: "outcome (snd after_success) =
               Responded
                 \<lparr> status = 200,
                   headers = [(''Cache-Control'', ''public, max-age=60''), (''X-Cache'', ''MISS'')],
                   body = Payload
                     \<lparr> body_title = Str ''Show'', body_author = Str ''Show'',
                       body_episodes = [toEpisode feed_ok item_enclosed, toEpisode feed_ok item_media] \<rparr> \<rparr>"
    by (simp add: after_success_eval)
  have el: "elapsed (snd after_success) = 250"
    by (simp add: after_success_eval)
  then have t: "(120250::nat) \<le> 0 + elapsed (snd after_success) + 120000"
    by simp
  have "status
          \<lparr> status = 200,
            headers = [(''Cache-Control'', ''public, max-age=60''), (''X-Cache'', ''MISS'')],
            body = Payload
              \<lparr> body_title = Str ''Show'', body_author = Str ''Show'',
                body_episodes = [toEpisode feed_ok item_enclosed, toEpisode feed_ok item_media] \<rparr> \<rparr>
        = 200"
    by simp
  from repeated_request_is_served_from_cache [OF miss run out this t, of hangs]
  show ?thesis
    using miss el by simp
qed

text \<open>
  The key is not the decoded and trimmed feed URL. The request whose query value has a
  leading space names the same feed URL as the request without it, since the handler
  trims the value before it fetches; their keys differ from that URL and from each
  other, so the second of the two requests, one second after the first, fetches the
  feed again.
\<close>

theorem cache_key_counterexample:
  "keyBuilder req_ok = ''episodes:http://example.com/feed''
   \<and> keyBuilder req_padded = ''episodes: http://example.com/feed''
   \<and> map_option trim (decodeURIComponent ''http://example.com/feed'') = Some ''http://example.com/feed''
   \<and> map_option trim (decodeURIComponent '' http://example.com/feed'') = Some ''http://example.com/feed''
   \<and> keyBuilder req_ok \<noteq> ''http://example.com/feed''
   \<and> keyBuilder req_padded \<noteq> keyBuilder req_ok
   \<and> fetched (snd after_success) = [''http://example.com/feed'']
   \<and> fetched (snd (episodes_route (resolves feed_ok) (fst after_success) 1000 req_padded)) =
       [''http://example.com/feed'']"
proof -
  have miss: "snd (cache_get (fst after_success) 1000 (keyBuilder req_padded)) = None"
    by (simp add: after_success_eval key_req_padded cache_get_def cache_set_def empty_cache_def)
  have "outcome (episodes_handler (resolves feed_ok) req_padded) =
          Responded (respond (Resolved (Some feed_ok)))"
    by (simp add: handler_on_req_padded resolves_def race_def)
  from cacheMW_miss [where kb = keyBuilder and handler = "episodes_handler (resolves feed_ok)",
                     OF miss this]
  have "fetched (snd (episodes_route (resolves feed_ok) (fst after_success) 1000 req_padded)) =
          [''http://example.com/feed'']"
    by (simp add: episodes_route_def handler_on_req_padded)
  then show ?thesis
    by (simp add: key_req_ok key_req_padded decode_example trim_example req_padded_valid
                  after_success_eval)
qed

subsection \<open>A failed fetch is stored like any other response\<close>

text \<open>
  Claim C5 says that a failed computation is not stored and that the next request
  recomputes. The route does otherwise: the \<open>catch\<close> branch answers through the wrapped
  \<open>res.json\<close>, so its body is stored under the key. After a request whose fetch is
  rejected, the cache holds the error body until 120 s after the response; the same
  request one second later is a hit, answered with status 200 and the stored error
  body, and \<open>rss.parseURL\<close> is not called although it would now resolve.
\<close>

theorem failed_fetch_is_cached_and_replayed:
  "outcome (snd after_failure) =
     Responded \<lparr> status = 404, headers = [(''X-Cache'', ''MISS'')],
                 body = ErrorDetails ''Feed not found or unavailable'' ''Status code 500'' \<rparr>
   \<and> fetched (snd after_failure) = [''http://example.com/feed'']
   \<and> fst after_failure (keyBuilder req_ok) =
       Some (ErrorDetails ''Feed not found or unavailable'' ''Status code 500'', 120040)
   \<and> snd (episodes_route (resolves feed_ok) (fst after_failure) 1000 req_ok) =
       \<lparr> outcome = Responded \<lparr> status = 200, headers = [(''X-Cache'', ''HIT'')],
                               body = ErrorDetails ''Feed not found or unavailable''
                                        ''Status code 500'' \<rparr>,
         elapsed = 0, fetched = [] \<rparr>"
proof -
  have stored: "fst after_failure (keyBuilder req_ok) =
       Some (ErrorDetails ''Feed not found or unavailable'' ''Status code 500'', 120040)"
    by (simp add: after_failure_eval key_req_ok cache_set_def stdTTL_def)
  have "cache_get (fst after_failure) 1000 (keyBuilder req_ok) =
          (fst after_failure, Some (ErrorDetails ''Feed not found or unavailable'' ''Status code 500''))"
    using stored by (simp add: cache_get_def)
  from cacheMW_hit [where kb = keyBuilder and handler = "episodes_handler (resolves feed_ok)", OF this]
  have "snd (episodes_route (resolves feed_ok) (fst after_failure) 1000 req_ok) =
          sent \<lparr> status = 200, headers = [(''X-Cache'', ''HIT'')],
                 body = ErrorDetails ''Feed not found or unavailable'' ''Status code 500'' \<rparr>"
    by (simp add: episodes_route_def)
  with stored show ?thesis
    by (simp add: sent_def after_failure_eval)
qed

subsection \<open>Input validation behind the cache\<close>

text \<open>
  Claim C6 says that a request without a usable \<open>feedUrl\<close> is answered with a 400-class
  error and without any network call. The handler does answer 400 and fetches nothing,
  but it answers through the wrapped \<open>res.json\<close>, so \<open>cacheMW\<close> stores the error body under
  the key of the request. On an empty cache, the request without \<open>feedUrl\<close> and the
  request for \<open>ftp://x\<close> are answered 400; the same request one second later is a hit,
  answered with status 200 and the stored error body. No URL is passed to
  \<open>rss.parseURL\<close> at any point.
\<close>

theorem invalid_input_is_replayed_with_status_200:
  "outcome (snd after_missing) =
     Responded \<lparr> status = 400, headers = [(''X-Cache'', ''MISS'')],
                 body = ErrorBody ''Missing feedUrl'' \<rparr>
   \<and> fetched (snd after_missing) = []
   \<and> snd (episodes_route (resolves feed_ok) (fst after_missing) 1000 req_missing) =
       \<lparr> outcome = Responded \<lparr> status = 200, headers = [(''X-Cache'', ''HIT'')],
                               body = ErrorBody ''Missing feedUrl'' \<rparr>,
         elapsed = 0, fetched = [] \<rparr>
   \<and> outcome (snd after_ftp) =
       Responded \<lparr> status = 400, headers = [(''X-Cache'', ''MISS'')],
                   body = ErrorBody ''Invalid feed URL'' \<rparr>
   \<and> fetched (snd after_ftp) = []
   \<and> snd (episodes_route (resolves feed_ok) (fst after_ftp) 1000 req_ftp) =
       \<lparr> outcome = Responded \<lparr> status = 200, headers = [(''X-Cache'', ''HIT'')],
                               body = ErrorBody ''Invalid feed URL'' \<rparr>,
         elapsed = 0, fetched = [] \<rparr>"
proof -
  have a: "fst after_missing ''episodes:undefined'' = Some (ErrorBody ''Missing feedUrl'', 120000)"
    by (simp add: after_missing_eval cache_set_def stdTTL_def)
  have b: "fst after_ftp ''episodes:ftp://x'' = Some (ErrorBody ''Invalid feed URL'', 120000)"
    by (simp add: after_ftp_eval cache_set_def stdTTL_def)
  have t: "(1000::nat) \<le> 120000"
    by simp
  from replay_of_stored_body [where kb = keyBuilder and handler = "episodes_handler (resolves feed_ok)"
                                and c = "fst after_missing" and key = "''episodes:undefined''",
                              OF a t key_invalid(1)]
       replay_of_stored_body [where kb = keyBuilder and handler = "episodes_handler (resolves feed_ok)"
                                and c = "fst after_ftp" and key = "''episodes:ftp://x''",
                              OF b t key_invalid(2)]
  show ?thesis
    by (simp add: episodes_route_def after_missing_eval after_ftp_eval)
qed

subsection \<open>A timeout is rendered like a fetch error\<close>

text \<open>
  Claim C7. For a valid request whose retrieval takes longer than the 9000 ms of the
  timer, the race is rejected with \<open>"Feed fetch timed out"\<close> and the handler answers with
  the response of its \<open>catch\<close> branch for that message. A retrieval that fails in time
  with some message gets the response of the same branch for its message. That response
  is always 404 with the body \<open>{error: "Feed not found or unavailable", details}\<close>,
  \<open>details\<close> being the message.
\<close>

theorem timeout_is_rendered_like_a_fetch_error:
  assumes "feedUrl req = Some raw" and "raw \<noteq> []"
    and "decodeURIComponent raw = Some decoded" and "test_http (trim decoded)"
  shows "(exceeds_timeout (parseURL (trim decoded)) \<longrightarrow>
            race (parseURL (trim decoded)) = (9000, Rejected ''Feed fetch timed out'')
            \<and> outcome (episodes_handler parseURL req) =
                Responded (catch_response ''Feed fetch timed out''))
         \<and> (parseURL' (trim decoded) = Settles d (Rejected message) \<and> d < 9000 \<longrightarrow>
            outcome (episodes_handler parseURL' req) = Responded (catch_response message))
         \<and> (\<forall>m. catch_response m =
                  \<lparr> status = 404, headers = [],
                    body = ErrorDetails ''Feed not found or unavailable'' m \<rparr>)"
proof (intro conjI impI allI)
  assume slow: "exceeds_timeout (parseURL (trim decoded))"
  then show r: "race (parseURL (trim decoded)) = (9000, Rejected ''Feed fetch timed out'')"
    by (auto simp: exceeds_timeout_def race_def split: promise.splits)
  show "outcome (episodes_handler parseURL req) = Responded (catch_response ''Feed fetch timed out'')"
    using handler_fetches [OF assms, of parseURL] r by (simp add: respond_def)
next
  assume "parseURL' (trim decoded) = Settles d (Rejected message) \<and> d < 9000"
  then show "outcome (episodes_handler parseURL' req) = Responded (catch_response message)"
    using handler_fetches [OF assms, of parseURL'] by (simp add: race_in_time respond_def)
next
  fix m
  show "catch_response m =
          \<lparr> status = 404, headers = [], body = ErrorDetails ''Feed not found or unavailable'' m \<rparr>"
    by (simp add: catch_response_def json_def)
qed

theorem timeout_is_rendered_like_a_fetch_error_witness:
  "exceeds_timeout (hangs ''http://example.com/feed'')
   \<and> exceeds_timeout (Settles 9001 (Resolved (Some feed_ok)))
   \<and> outcome (episodes_handler hangs req_ok) =
       Responded \<lparr> status = 404, headers = [],
                   body = ErrorDetails ''Feed not found or unavailable'' ''Feed fetch timed out'' \<rparr>
   \<and> outcome (episodes_handler (\<lambda>url. Settles 9001 (Resolved (Some feed_ok))) req_ok) =
       Responded \<lparr> status = 404, headers = [],
                   body = ErrorDetails ''Feed not found or unavailable'' ''Feed fetch timed out'' \<rparr>
   \<and> outcome (episodes_handler (rejects ''getaddrinfo ENOTFOUND example.com'') req_ok) =
       Responded \<lparr> status = 404, headers = [],
                   body = ErrorDetails ''Feed not found or unavailable''
                            ''getaddrinfo ENOTFOUND example.com'' \<rparr>"
proof -
  have slow: "exceeds_timeout (hangs (trim ''http://example.com/feed''))"
    "exceeds_timeout (Settles 9001 (Resolved (Some feed_ok)))"
    by (simp_all add: hangs_def exceeds_timeout_def)
  have fails: "rejects ''getaddrinfo ENOTFOUND example.com'' (trim ''http://example.com/feed'') =
                 Settles 40 (Rejected ''getaddrinfo ENOTFOUND example.com'') \<and> (40::nat) < 9000"
    by (simp add: rejects_def)
  from timeout_is_rendered_like_a_fetch_error
         [where parseURL = hangs and parseURL' = "rejects ''getaddrinfo ENOTFOUND example.com''"
            and d = 40 and message = "''getaddrinfo ENOTFOUND example.com''",
          OF req_ok_valid(1,2) decode_example req_ok_valid(3)]
       timeout_is_rendered_like_a_fetch_error
         [where parseURL = "\<lambda>url. Settles 9001 (Resolved (Some feed_ok))"
            and parseURL' = "rejects ''getaddrinfo ENOTFOUND example.com''"
            and d = 40 and message = "''getaddrinfo ENOTFOUND example.com''",
          OF req_ok_valid(1,2) decode_example req_ok_valid(3)]
  show ?thesis
    using slow fails by (simp add: hangs_def exceeds_timeout_def)
qed

subsection \<open>The description of an episode\<close>

text \<open>
  Claim C8. In Server\_backup.cjs the description of the normalized episode is the first
  truthy value (a non-empty string) among the item's \<open>contentSnippet\<close>, \<open>summary\<close> and
  \<open>description\<close>, else the empty string: an empty snippet or summary is passed over. In
  the variant route it is the first truthy value among \<open>contentSnippet\<close> and \<open>content\<close>,
  else the empty string: the summary is not read.
\<close>

theorem description_first_truthy:
  "ep_description (toEpisode feed item) =
     (if truthy (item_contentSnippet item) then item_contentSnippet item
      else if truthy (item_summary item) then item_summary item
      else if truthy (item_description item) then item_description item
      else Str [])
   \<and> ep_description (toEpisode_variant feed item) =
     (if truthy (item_contentSnippet item) then item_contentSnippet item
      else if truthy (item_content item) then item_content item
      else Str [])"
  by (simp add: toEpisode_def toEpisode_variant_def js_or_def)

theorem description_first_truthy_witness:
  "ep_description (toEpisode feed_ok item_summary_only) = Str ''Summary''
   \<and> ep_description (toEpisode_variant feed_ok item_summary_only) = Str []
   \<and> ep_description (toEpisode feed_ok blank_item) = Str []"
proof -
  have "item_contentSnippet item_summary_only = Undefined"
    "item_summary item_summary_only = Str ''Summary''"
    "item_content item_summary_only = Undefined"
    "item_contentSnippet blank_item = Undefined" "item_summary blank_item = Undefined"
    "item_description blank_item = Undefined"
    by code_simp+
  with description_first_truthy [of feed_ok item_summary_only]
    description_first_truthy [of feed_ok blank_item]
  show ?thesis by simp
qed

text \<open>
  ``The first non-null of content snippet, summary, full content, else the empty
  string'' fails on both routes. For an item whose snippet is the empty string and whose
  summary is not, the rule as worded gives the empty string and Server\_backup.cjs gives
  the summary. For an item that has a summary and neither snippet nor content, the rule
  gives the summary and the variant route gives the empty string.
\<close>

theorem description_counterexample:
  "item_contentSnippet item_empty_snippet = Str []
   \<and> item_summary item_empty_snippet = Str ''Summary''
   \<and> spec_first_non_null
        [item_contentSnippet item_empty_snippet, item_summary item_empty_snippet,
         item_description item_empty_snippet] (Str []) = Str []
   \<and> ep_description (toEpisode feed_ok item_empty_snippet) = Str ''Summary''
   \<and> item_contentSnippet item_summary_only = Undefined
   \<and> item_summary item_summary_only = Str ''Summary''
   \<and> spec_first_non_null
        [item_contentSnippet item_summary_only, item_summary item_summary_only,
         item_content item_summary_only] (Str []) = Str ''Summary''
   \<and> ep_description (toEpisode_variant feed_ok item_summary_only) = Str []"
  by code_simp

subsection \<open>The image of an episode\<close>

text \<open>
  Claim C9 says that the image is the item's artwork, else the feed's artwork, else the
  feed's generic image, else \<open>null\<close>. Server\_backup.cjs reads the \<open>href\<close> of the item's
  \<open>itunesImage\<close>, the \<open>href\<close> of the item's \<open>"itunes:image"\<close> and the URL of the feed's
  generic image; it never reads the feed's artwork (\<open>feed.itunes.image\<close>). For an item
  without artwork in a feed that has artwork and no generic image, the chain of the
  claim gives the feed's artwork, and so does the variant route, whose chain is the one
  the claim states; Server\_backup.cjs gives \<open>null\<close>.
\<close>

theorem feed_artwork_is_not_consulted:
  "opt_chain (item_itunesImage blank_item) href = Undefined
   \<and> opt_chain (item_itunes_image blank_item) href = Undefined
   \<and> opt_chain (item_itunes blank_item) itunes_image = Undefined
   \<and> opt_chain (feed_itunes feed_artwork) feed_itunes_image = Str ''http://example.com/art.jpg''
   \<and> opt_chain (feed_image feed_artwork) image_url = Undefined
   \<and> spec_first_non_null
        [opt_chain (item_itunesImage blank_item) href,
         opt_chain (feed_itunes feed_artwork) feed_itunes_image,
         opt_chain (feed_image feed_artwork) image_url] Null = Str ''http://example.com/art.jpg''
   \<and> ep_image (toEpisode feed_artwork blank_item) = Null
   \<and> ep_image (toEpisode_variant feed_artwork blank_item) = Str ''http://example.com/art.jpg''"
  by code_simp

subsection \<open>The author of a successful response\<close>

text \<open>
  Claim C10. Whenever the handler answers 200, it has retrieved a feed, the body is
  \<open>{title, author, episodes}\<close> with the feed's title, and \<open>author\<close> is the feed's itunes
  author when that is present, else the feed's title when that is present, else the
  string \<open>"Unknown"\<close>. A value is present when it is truthy: a non-empty string.
\<close>

theorem successful_response_author:
  assumes "outcome (episodes_handler parseURL req) = Responded r" and "status r = 200"
  shows "\<exists>raw decoded d feed p.
           feedUrl req = Some raw \<and> decodeURIComponent raw = Some decoded
           \<and> parseURL (trim decoded) = Settles d (Resolved (Some feed))
           \<and> body r = Payload p
           \<and> body_title p = feed_title feed
           \<and> body_author p =
               (if truthy (opt_chain (feed_itunes feed) feed_itunes_author)
                then opt_chain (feed_itunes feed) feed_itunes_author
                else if truthy (feed_title feed) then feed_title feed
                else Str ''Unknown'')"
proof -
  from assms obtain raw decoded where
    raw: "feedUrl req = Some raw" "raw \<noteq> []" "decodeURIComponent raw = Some decoded"
      "test_http (trim decoded)"
    by (auto simp: episodes_handler_def sent_def json_def Let_def
             split: option.splits if_splits prod.splits)
  from handler_fetches [OF raw, of parseURL] assms(1)
  have r: "r = respond (snd (race (parseURL (trim decoded))))"
    by simp
  with assms(2) obtain d feed where
    p: "parseURL (trim decoded) = Settles d (Resolved (Some feed))" and "d < 9000"
    by (auto simp: race_def respond_def catch_response_def json_def
             split: promise.splits settled.splits option.splits if_splits)
  then have "r = respond (Resolved (Some feed))"
    using r by (simp add: race_in_time)
  with assms(2) have
    "body r = Payload
       \<lparr> body_title = feed_title feed,
         body_author =
           js_or (js_or (opt_chain (feed_itunes feed) feed_itunes_author) (feed_title feed))
                 (Str ''Unknown''),
         body_episodes = episodes_of feed (case feed_items feed of None \<Rightarrow> [] | Some its \<Rightarrow> its) \<rparr>"
    by (auto simp: respond_def json_def Let_def split: option.splits list.splits if_splits)
  with raw p show ?thesis
    by (auto simp: js_or_def)
qed

text \<open>A feed with an itunes author, a feed with a title only, and a feed whose itunes
  author is the empty string and whose title is missing.\<close>

theorem successful_response_author_witness:
  "(\<exists>r. outcome (episodes_handler (resolves feed_hosted) req_ok) = Responded r
         \<and> status r = 200
         \<and> (\<exists>p. body r = Payload p \<and> body_author p = Str ''Host''))
   \<and> (\<exists>r. outcome (episodes_handler (resolves feed_ok) req_ok) = Responded r
         \<and> status r = 200
         \<and> (\<exists>p. body r = Payload p \<and> body_author p = Str ''Show''))
   \<and> (\<exists>r. outcome (episodes_handler (resolves feed_untitled) req_ok) = Responded r
         \<and> status r = 200
         \<and> (\<exists>p. body r = Payload p \<and> body_author p = Str ''Unknown''))"
proof -
  have author: "\<exists>r. outcome (episodes_handler (resolves feed) req_ok) = Responded r
         \<and> status r = 200
         \<and> (\<exists>p. body r = Payload p \<and> body_author p =
               (if truthy (opt_chain (feed_itunes feed) feed_itunes_author)
                then opt_chain (feed_itunes feed) feed_itunes_author
                else if truthy (feed_title feed) then feed_title feed
                else Str ''Unknown''))"
    if ok: "outcome (episodes_handler (resolves feed) req_ok) = Responded r0" "status r0 = 200"
    for feed r0
    using successful_response_author [OF ok] ok by (auto simp: resolves_def)
  have run: "outcome (episodes_handler (resolves feed) req_ok) =
               Responded (respond (Resolved (Some feed)))" for feed
    by (simp add: handler_on_req_ok resolves_def race_def)
  have s: "status (respond (Resolved (Some feed_hosted))) = 200"
    "status (respond (Resolved (Some feed_ok))) = 200"
    "status (respond (Resolved (Some feed_untitled))) = 200"
    by code_simp+
  have f: "opt_chain (feed_itunes feed_hosted) feed_itunes_author = Str ''Host''"
    "opt_chain (feed_itunes feed_ok) feed_itunes_author = Undefined"
    "opt_chain (feed_itunes feed_untitled) feed_itunes_author = Str []"
    "feed_title feed_ok = Str ''Show''" "feed_title feed_untitled = Undefined"
    by code_simp+
  from author [OF run s(1)] author [OF run s(2)] author [OF run s(3)]
  show ?thesis
    by (simp add: f)
qed

end
